theory Spec2Isabelle
  imports Main "HOL-Library.AList" "HOL-Library.Sublist"
begin

section \<open>Python string primitives\<close>

text \<open>
  Strings are \<^typ>\<open>string\<close> (lists of 8-bit characters). Lines are what iterating a text
  file yields: each one normally ends in a newline. Character classes are given on the
  ASCII range.
\<close>

definition is_space :: "char \<Rightarrow> bool" where
  \<comment> \<open>the characters \<open>str.rstrip()\<close> removes: tab, LF, VT, FF, CR, FS, GS, RS, US, space\<close>
  "is_space c = (let n = (of_char c :: nat) in (9 \<le> n \<and> n \<le> 13) \<or> (28 \<le> n \<and> n \<le> 32))"

definition rstrip :: "string \<Rightarrow> string" where
  \<comment> \<open>\<open>line.rstrip()\<close>: drop the trailing run of whitespace\<close>
  "rstrip s = rev (dropWhile is_space (rev s))"

fun startswith :: "string \<Rightarrow> string \<Rightarrow> bool" where
  \<comment> \<open>\<open>s.startswith(p)\<close>, written \<open>startswith p s\<close>\<close>
  "startswith [] s = True"
| "startswith (p # ps) [] = False"
| "startswith (p # ps) (c # cs) = (p = c \<and> startswith ps cs)"

fun find_from :: "nat \<Rightarrow> string \<Rightarrow> string \<Rightarrow> int" where
  "find_from i [] ss = (if ss = [] then int i else - 1)"
| "find_from i (c # cs) ss = (if startswith ss (c # cs) then int i else find_from (Suc i) cs ss)"

definition str_find :: "string \<Rightarrow> string \<Rightarrow> int" where
  \<comment> \<open>\<open>text.find(ss)\<close>: index of the first occurrence of \<open>ss\<close>, or \<open>-1\<close>\<close>
  "str_find text ss = find_from 0 text ss"

definition find_wrapper :: "string \<Rightarrow> string \<Rightarrow> int" where
  "find_wrapper text ss = str_find text ss"

definition slice_from :: "int \<Rightarrow> string \<Rightarrow> string" where
  \<comment> \<open>\<open>line[d:]\<close>; a negative \<open>d\<close> counts from the end and is clamped at the start\<close>
  "slice_from d s = (if 0 \<le> d then drop (nat d) s else drop (nat (int (length s) + d)) s)"

datatype py_error = StopIteration | TypeError | ValueError | IOError

section \<open>The single-file extractor (extract-snippets.py)\<close>

record cli_args =
  latex_env :: "string option"
  dedent :: int
  after_string :: string
  before_string :: string
  start_line :: int
  end_line :: int

subsection \<open>Rendering\<close>

definition get_header :: "cli_args \<Rightarrow> string option" where
  \<comment> \<open>falls off the end (returns \<open>None\<close>) when \<open>latex_env\<close> is unset or empty\<close>
  "get_header args =
     (case latex_env args of
        None \<Rightarrow> None
      | Some e \<Rightarrow> if e \<noteq> [] then Some (CHR 0x5C # ''begin{'' @ e @ ''}'') else None)"

definition render_footer :: "cli_args \<Rightarrow> string option" where
  "render_footer args =
     (case latex_env args of
        None \<Rightarrow> None
      | Some e \<Rightarrow> if e \<noteq> [] then Some (CHR 0x5C # ''end{'' @ e @ ''}'') else None)"

definition render :: "cli_args \<Rightarrow> string list \<Rightarrow> string list \<times> py_error option" where
  \<comment> \<open>the strings passed to \<open>outfile.write\<close>, in order, and the exception that ended the
      call, if any: \<open>None + "\n"\<close> raises \<open>TypeError\<close>\<close>
  "render args extracted =
     (case get_header args of
        None \<Rightarrow> ([], Some TypeError)
      | Some h \<Rightarrow>
          (let written = (h @ ''\<newline>'') # map (\<lambda>line. slice_from (dedent args) line @ ''\<newline>'') extracted
           in case render_footer args of
                None \<Rightarrow> (written, Some TypeError)
              | Some f \<Rightarrow> (written @ [f @ ''\<newline>''], None)))"

subsection \<open>Extraction between delimiter strings\<close>

definition extract_delimiters_simple_cli :: "cli_args \<Rightarrow> string list \<Rightarrow> py_error + string list" where
  \<comment> \<open>\<open>next(rest)\<close> on an exhausted iterator raises \<open>StopIteration\<close>\<close>
  "extract_delimiters_simple_cli args infile =
     (let data = map rstrip infile;
          rest = dropWhile (\<lambda>text. str_find text (after_string args) < 0) data
      in case rest of
           [] \<Rightarrow> Inl StopIteration
         | _ # rest' \<Rightarrow> Inr (takeWhile (\<lambda>text. find_wrapper text (before_string args) < 0) rest'))"

subsection \<open>Extraction by line numbers\<close>

record line_info =
  number :: int
  text_of :: string

fun numbered_reader_from :: "int \<Rightarrow> string list \<Rightarrow> line_info list" where
  "numbered_reader_from line_no [] = []"
| "numbered_reader_from line_no (line # infile) =
     \<lparr>number = line_no, text_of = rstrip line\<rparr> # numbered_reader_from (line_no + 1) infile"

definition numbered_reader :: "string list \<Rightarrow> line_info list" where
  "numbered_reader infile = numbered_reader_from 1 infile"

definition extract_line_range :: "cli_args \<Rightarrow> string list \<Rightarrow> string list" where
  "extract_line_range args infile =
     (let reader = numbered_reader infile;
          rest = dropWhile (\<lambda>li. number li < start_line args) reader;
          extracted = takeWhile (\<lambda>li. number li < end_line args) rest
      in map text_of extracted)"

section \<open>The tree scanner (extract_snippets/get_snippets_from_tags.py)\<close>

subsection \<open>More string and path primitives\<close>

function str_replace :: "string \<Rightarrow> string \<Rightarrow> string \<Rightarrow> string" where
  \<comment> \<open>\<open>s.replace(old, new)\<close>, written \<open>str_replace old new s\<close>: the occurrences of
      \<open>old\<close> are found left to right and do not overlap; an empty \<open>old\<close> matches before
      every character and at the end\<close>
  "str_replace old new s =
     (if old = [] then new @ concat (map (\<lambda>c. c # new) s)
      else if s = [] then []
      else if startswith old s then new @ str_replace old new (drop (length old) s)
      else hd s # str_replace old new (tl s))"
  by pat_completeness auto
termination
  by (relation "measure (\<lambda>(old, new, s). length s)") auto

declare str_replace.simps [simp del]

definition os_path_join :: "string \<Rightarrow> string \<Rightarrow> string" where
  \<comment> \<open>\<open>posixpath.join(a, b)\<close>\<close>
  "os_path_join a b =
     (if startswith ''/'' b then b
      else if a = [] \<or> last a = CHR ''/'' then a @ b
      else a @ ''/'' @ b)"

definition rfind_char :: "char \<Rightarrow> string \<Rightarrow> int" where
  \<comment> \<open>\<open>p.rfind(c)\<close> for a one-character \<open>c\<close>\<close>
  "rfind_char c p =
     (if c \<in> set p then int (length p) - 1 - int (length (takeWhile (\<lambda>x. x \<noteq> c) (rev p))) else - 1)"

definition os_path_splitext :: "string \<Rightarrow> string \<times> string" where
  \<comment> \<open>\<open>posixpath.splitext\<close>: the extension starts at the last dot of the last component,
      unless that component has nothing but dots before it\<close>
  "os_path_splitext p =
     (let sepIndex = rfind_char (CHR ''/'') p;
          dotIndex = rfind_char (CHR ''.'') p
      in if dotIndex > sepIndex
         then (if list_ex (\<lambda>c. c \<noteq> CHR ''.'') (take (nat (dotIndex - (sepIndex + 1))) (drop (nat (sepIndex + 1)) p))
               then (take (nat dotIndex) p, drop (nat dotIndex) p)
               else (p, []))
         else (p, []))"

fun str_split :: "char \<Rightarrow> string \<Rightarrow> string list" where
  \<comment> \<open>\<open>s.split(sep)\<close> for a one-character separator\<close>
  "str_split sep [] = [[]]"
| "str_split sep (c # cs) =
     (if c = sep then [] # str_split sep cs
      else (case str_split sep cs of [] \<Rightarrow> [[c]] | w # ws \<Rightarrow> (c # w) # ws))"

fun str_of_nat :: "nat \<Rightarrow> string" where
  "str_of_nat n = (if n < 10 then [char_of (48 + n)] else str_of_nat (n div 10) @ [char_of (48 + n mod 10)])"

declare str_of_nat.simps [simp del]

definition str_of_int :: "int \<Rightarrow> string" where
  \<comment> \<open>the \<open>%d\<close> conversion\<close>
  "str_of_int i = (if i < 0 then CHR ''-'' # str_of_nat (nat (- i)) else str_of_nat (nat i))"

subsection \<open>The tag matcher\<close>

definition is_word :: "char \<Rightarrow> bool" where
  \<comment> \<open>\<open>\w\<close>: letters, digits and the underscore\<close>
  "is_word c = (let n = (of_char c :: nat)
                in (48 \<le> n \<and> n \<le> 57) \<or> (65 \<le> n \<and> n \<le> 90) \<or> (97 \<le> n \<and> n \<le> 122) \<or> n = 95)"

definition is_tag_char :: "char \<Rightarrow> bool" where
  \<comment> \<open>\<open>[\w'-]\<close>\<close>
  "is_tag_char c = (is_word c \<or> c = CHR 0x27 \<or> c = CHR ''-'')"

record regex_match =
  m_start :: nat
  m_end :: nat
  g_book :: string
  g_tag :: string
  g_marker :: string

definition match_at :: "string \<Rightarrow> (string \<times> string \<times> string) option" where
  \<comment> \<open>TAG_REGEX matched at the head of the string. Both repetitions are greedy and are
      followed by a colon, which neither class contains, so each takes the maximal run.\<close>
  "match_at s =
     (if startswith ''{{'' s then
        (let r1 = drop 2 s; book = takeWhile is_word r1; r2 = dropWhile is_word r1
         in if book \<noteq> [] \<and> startswith '':'' r2 then
              (let r3 = drop 1 r2; tag = takeWhile is_tag_char r3; r4 = dropWhile is_tag_char r3
               in if tag \<noteq> [] \<and> startswith '':'' r4 then
                    (let r5 = drop 1 r4
                     in if startswith ''begin}}'' r5 then Some (book, tag, ''begin'')
                        else if startswith ''end}}'' r5 then Some (book, tag, ''end'')
                        else None)
                  else None)
            else None)
      else None)"

fun search_from :: "nat \<Rightarrow> string \<Rightarrow> regex_match option" where
  \<comment> \<open>\<open>snip_regex.search\<close>: the leftmost position at which the pattern matches\<close>
  "search_from i [] = None"
| "search_from i (c # cs) =
     (case match_at (c # cs) of
        Some (book, tag, marker) \<Rightarrow>
          Some \<lparr>m_start = i, m_end = i + (2 + length book + 1 + length tag + 1 + length marker + 2),
                g_book = book, g_tag = tag, g_marker = marker\<rparr>
      | None \<Rightarrow> search_from (Suc i) cs)"

definition snip_regex_search :: "string \<Rightarrow> regex_match option" where
  "snip_regex_search text = search_from 0 text"

subsection \<open>Scanning one file\<close>

text \<open>The dictionary built for every matching line; \<open>mm_\<close> prefixes its keys.\<close>

record marker_match =
  mm_path :: string
  mm_root :: string
  mm_name :: string
  mm_language :: string
  mm_line :: int
  mm_text :: string
  mm_match_text :: string
  mm_match_start :: nat
  mm_match_end :: nat
  mm_fq_tag :: string
  mm_book :: string
  mm_tag :: string
  mm_marker :: string

fun line_reader_from :: "int \<Rightarrow> string list \<Rightarrow> line_info list" where
  "line_reader_from line_no [] = []"
| "line_reader_from line_no (line # file) =
     \<lparr>number = line_no, text_of = line\<rparr> # line_reader_from (line_no + 1) file"

definition line_reader :: "string list \<Rightarrow> line_info list" where
  "line_reader file = line_reader_from 1 file"

definition make_doc :: "string \<Rightarrow> string \<Rightarrow> string \<Rightarrow> line_info \<Rightarrow> regex_match \<Rightarrow> marker_match" where
  "make_doc root name extension li result =
     \<lparr>mm_path = os_path_join root name,
      mm_root = root,
      mm_name = name,
      mm_language = drop 1 extension,
      mm_line = number li + 1,
      mm_text = text_of li,
      mm_match_text = take (m_end result - m_start result) (drop (m_start result) (text_of li)),
      mm_match_start = m_start result,
      mm_match_end = m_end result,
      mm_fq_tag = take (m_end result - 2 - (m_start result + 2)) (drop (m_start result + 2) (text_of li)),
      mm_book = g_book result,
      mm_tag = g_tag result,
      mm_marker = g_marker result\<rparr>"

fun collect_matches :: "string \<Rightarrow> string \<Rightarrow> string \<Rightarrow> line_info list \<Rightarrow> marker_match list" where
  \<comment> \<open>the first loop of \<open>process_file\<close>\<close>
  "collect_matches root name extension [] = []"
| "collect_matches root name extension (li # reader) =
     (case snip_regex_search (text_of li) of
        Some result \<Rightarrow> make_doc root name extension li result # collect_matches root name extension reader
      | None \<Rightarrow> collect_matches root name extension reader)"

function groupby :: "('a \<Rightarrow> 'k) \<Rightarrow> 'a list \<Rightarrow> ('k \<times> 'a list) list" where
  \<comment> \<open>\<open>itertools.groupby\<close>: a new group starts whenever the key changes, so only
      neighbouring elements share a group\<close>
  "groupby key [] = []"
| "groupby key (x # xs) =
     (key x, x # takeWhile (\<lambda>y. key y = key x) xs) # groupby key (dropWhile (\<lambda>y. key y = key x) xs)"
  by pat_completeness auto
termination
  by (relation "measure (\<lambda>(key, xs). length xs)") (auto simp: length_dropWhile_le less_Suc_eq_le)

definition mismatch_message :: "string \<Rightarrow> string" where
  "mismatch_message group_name = ''Tag '' @ group_name @ '' has mismatched or missing begin/end marker''"

fun validate_groups ::
  "(string \<times> marker_match list) list \<Rightarrow> string list \<times> (string \<times> marker_match list) list
     \<Rightarrow> string list \<times> (string \<times> marker_match list) list" where
  \<comment> \<open>the second loop of \<open>process_file\<close>; the state is the lines printed so far and the
      dictionary \<open>groups\<close> (keys in insertion order)\<close>
  "validate_groups [] st = st"
| "validate_groups ((group_name, vals) # rest) (printed, groups) =
     (let group_values = sort_key mm_line vals;
          markers = set (map mm_marker group_values)
      in if card markers \<noteq> 2
         then validate_groups rest (printed @ [mismatch_message group_name], groups)
         else validate_groups rest (printed, AList.update group_name group_values groups))"

definition process_lines ::
  "string \<Rightarrow> string \<Rightarrow> string \<Rightarrow> string list \<Rightarrow> string list \<times> (string \<times> marker_match list) list" where
  \<comment> \<open>\<open>process_file\<close> on the lines of the opened file: the diagnostics printed and the
      dictionary returned\<close>
  "process_lines root name extension file =
     (let results = collect_matches root name extension (line_reader file)
      in validate_groups (groupby mm_tag results) ([], []))"

subsection \<open>Delimiter extraction and manifest names\<close>

definition extract_delimiters_simple :: "string list \<Rightarrow> string \<Rightarrow> string \<Rightarrow> py_error + string list" where
  "extract_delimiters_simple infile after_str before_str =
     (let data = map rstrip infile;
          data2 = dropWhile (\<lambda>text. length text = 0) data;
          rest = dropWhile (\<lambda>text. str_find text after_str < 0) data2
      in case rest of
           [] \<Rightarrow> Inl StopIteration
         | _ # rest' \<Rightarrow> Inr (takeWhile (\<lambda>text. find_wrapper text before_str < 0) rest'))"

definition depathify :: "string \<Rightarrow> string" where
  "depathify path =
     (let s = str_replace ''../'' [] path;
          s = str_replace ''./'' [] s;
          s = str_replace ''_'' ''-'' s;
          s = str_replace ''/'' ''-'' s
      in s)"

definition json_filename :: "string \<Rightarrow> string \<Rightarrow> string" where
  \<comment> \<open>the name \<open>write_json\<close> derives for the manifest of \<open>root/basename\<close>\<close>
  "json_filename root basename = depathify (os_path_join root basename) @ ''.json''"

definition get_minted_env :: "string \<Rightarrow> string" where
  "get_minted_env extension =
     (case map_of [(''c'', ''ccode''), (''cc'', ''cppcode''), (''cpp'', ''cppcode''), (''c++'', ''cppcode''),
                   (''py'', ''pycode''), (''h'', ''ccode''), (''hh'', ''ccode'')] extension of
        Some env \<Rightarrow> env
      | None \<Rightarrow> ''unknownlanguage'') @ ''*''"

subsection \<open>Effects: the file system and the trace of a run\<close>

text \<open>
  A run is modelled by the list of its effects, in order, and its outcome: the value
  returned, or the exception that ended it (no exception is caught anywhere in the source).
  The file system is a snapshot taken when the run starts: which paths exist, what
  \<open>os.walk\<close> yields for a base directory, the lines of every readable file, and which
  paths can be opened for writing.
\<close>

record scan_args =
  arg_dir :: string
  arg_outdir :: string
  arg_extensions :: string
  arg_literalinclude :: bool
  arg_minted :: bool
  arg_json :: bool

record filesystem =
  fs_exists :: "string \<Rightarrow> bool"
  fs_walk :: "string \<Rightarrow> (string \<times> string list \<times> string list) list"
  fs_read :: "string \<Rightarrow> string list option"
  fs_writable :: "string \<Rightarrow> bool"

datatype event =
    Exists string
  | Walk string
  | Print string
  | OpenRead string
  | OpenWrite string
  | Write string string
  | WriteJson string "(string \<times> marker_match list) list"

type_synonym 'a run = "event list \<times> (py_error + 'a)"

definition then_run :: "'a run \<Rightarrow> ('a \<Rightarrow> 'b run) \<Rightarrow> 'b run" where
  \<comment> \<open>sequencing: an exception ends the run, keeping the effects so far\<close>
  "then_run m f =
     (case m of
        (t, Inl e) \<Rightarrow> (t, Inl e)
      | (t, Inr x) \<Rightarrow> (case f x of (t', r) \<Rightarrow> (t @ t', r)))"

definition process_file ::
  "filesystem \<Rightarrow> string \<Rightarrow> string \<Rightarrow> string \<Rightarrow> (string \<times> marker_match list) list run" where
  "process_file fs root name extension =
     (let path = os_path_join root name
      in case fs_read fs path of
           None \<Rightarrow> ([OpenRead path], Inl IOError)
         | Some file \<Rightarrow>
             (case process_lines root name extension file of
                (printed, groups) \<Rightarrow> (OpenRead path # map Print printed, Inr groups)))"

definition write_json ::
  "filesystem \<Rightarrow> string \<Rightarrow> string \<Rightarrow> string \<Rightarrow> (string \<times> marker_match list) list \<Rightarrow> unit run" where
  "write_json fs outdir root basename data =
     (let path = os_path_join outdir (json_filename root basename)
      in if fs_writable fs path
         then ([Print (''Writing output to '' @ json_filename root basename), OpenWrite path, WriteJson path data],
               Inr ())
         else ([Print (''Writing output to '' @ json_filename root basename), OpenWrite path], Inl IOError))"

fun str_join :: "string \<Rightarrow> string list \<Rightarrow> string" where
  "str_join sep [] = []"
| "str_join sep [x] = x"
| "str_join sep (x # y # ys) = x @ sep @ str_join sep (y # ys)"

definition minted_header :: "string \<Rightarrow> int \<Rightarrow> string" where
  "minted_header minted_env firstnumber =
     CHR 0x5C # ''begin{'' @ minted_env @ ''}{firstnumber='' @ str_of_int firstnumber @ ''}\<newline>''"

definition minted_footer :: "string \<Rightarrow> string" where
  "minted_footer minted_env = CHR 0x5C # ''end{'' @ minted_env @ ''}\<newline>''"

definition snip_filename_of :: "scan_args \<Rightarrow> marker_match \<Rightarrow> string" where
  "snip_filename_of args begin_m =
     os_path_join (arg_outdir args)
       (''snip-'' @ mm_book begin_m @ ''-'' @ str_replace ''_'' ''-'' (mm_tag begin_m) @ ''.tex'')"

definition write_minted_group :: "filesystem \<Rightarrow> scan_args \<Rightarrow> marker_match \<Rightarrow> marker_match \<Rightarrow> unit run" where
  \<comment> \<open>the body of the loop of \<open>write_minted_snippets\<close> for a group that passed its check\<close>
  "write_minted_group fs args begin_m end_m =
     (let snip_filename = snip_filename_of args begin_m
      in case fs_read fs (mm_path begin_m) of
           None \<Rightarrow> ([OpenRead (mm_path begin_m)], Inl IOError)
         | Some infile \<Rightarrow>
             (case extract_delimiters_simple infile (mm_match_text begin_m) (mm_match_text end_m) of
                Inl err \<Rightarrow> ([OpenRead (mm_path begin_m)], Inl err)
              | Inr extracted \<Rightarrow>
                  if fs_writable fs snip_filename
                  then (let minted_env = get_minted_env (mm_language begin_m)
                        in ([OpenRead (mm_path begin_m), OpenWrite snip_filename,
                             Write snip_filename (minted_header minted_env (mm_line begin_m)),
                             Write snip_filename (str_join ''\<newline>'' extracted @ ''\<newline>''),
                             Write snip_filename (minted_footer minted_env)], Inr ()))
                  else ([OpenRead (mm_path begin_m), OpenWrite snip_filename], Inl IOError)))"

fun write_minted_snippets ::
  "filesystem \<Rightarrow> scan_args \<Rightarrow> (string \<times> marker_match list) list \<Rightarrow> unit run" where
  \<comment> \<open>unpacking \<open>groups[group][:2]\<close> into a pair raises \<open>ValueError\<close> on fewer than two\<close>
  "write_minted_snippets fs args [] = ([], Inr ())"
| "write_minted_snippets fs args ((group_name, vals) # groups) =
     (case take 2 vals of
        [begin_m, end_m] \<Rightarrow>
          then_run
            (if mm_marker begin_m \<noteq> ''begin'' \<or> mm_marker end_m \<noteq> ''end''
             then ([Print (''Invalid group '' @ group_name)], Inr ())
             else write_minted_group fs args begin_m end_m)
            (\<lambda>_. write_minted_snippets fs args groups)
      | _ \<Rightarrow> ([], Inl ValueError))"

definition process_name :: "filesystem \<Rightarrow> scan_args \<Rightarrow> string set \<Rightarrow> string \<Rightarrow> string \<Rightarrow> unit run" where
  \<comment> \<open>the body of the inner loop of \<open>process_dir\<close>\<close>
  "process_name fs args extensions root name =
     (case os_path_splitext name of
        (nameonly, extension) \<Rightarrow>
          if extension \<in> extensions then
            then_run (process_file fs root name extension)
              (\<lambda>snips.
                 then_run
                   (if arg_json args \<and> length snips > 0
                    then write_json fs (arg_outdir args) root name snips
                    else ([], Inr ()))
                   (\<lambda>_. if arg_minted args then write_minted_snippets fs args snips else ([], Inr ())))
          else ([], Inr ()))"

fun process_names :: "filesystem \<Rightarrow> scan_args \<Rightarrow> string set \<Rightarrow> string \<Rightarrow> string list \<Rightarrow> unit run" where
  "process_names fs args extensions root [] = ([], Inr ())"
| "process_names fs args extensions root (name # files) =
     then_run (process_name fs args extensions root name)
       (\<lambda>_. process_names fs args extensions root files)"

fun process_walk ::
  "filesystem \<Rightarrow> scan_args \<Rightarrow> string set \<Rightarrow> (string \<times> string list \<times> string list) list \<Rightarrow> unit run" where
  "process_walk fs args extensions [] = ([], Inr ())"
| "process_walk fs args extensions ((root, dirs, files) # walk) =
     then_run (process_names fs args extensions root files)
       (\<lambda>_. process_walk fs args extensions walk)"

definition process_dir :: "filesystem \<Rightarrow> scan_args \<Rightarrow> unit run" where
  "process_dir fs args =
     (let basedir = arg_dir args;
          extensions = set (map (\<lambda>extension. ''.'' @ extension) (str_split (CHR '','') (arg_extensions args)));
          outdir = arg_outdir args
      in if \<not> fs_exists fs outdir
         then ([Exists outdir, Print (''Outdir '' @ outdir @ '' must exist (exiting)'')], Inr ())
         else then_run ([Exists outdir, Walk basedir], Inr ())
                (\<lambda>_. process_walk fs args extensions (fs_walk fs basedir)))"

section \<open>Properties of the single-file extractor\<close>

subsection \<open>Substring search and the two loops over lines\<close>

text \<open>
  \<open>text.find(ss) < 0\<close> holds exactly when \<open>ss\<close> is not a contiguous part of \<open>text\<close>
  (\<^const>\<open>sublist\<close>); the empty string is part of every string.
\<close>

lemma startswith_prefix: "startswith p s = prefix p s"
  by (induction p s rule: startswith.induct) simp_all

lemma find_from_nonneg_iff: "0 \<le> find_from i s ss \<longleftrightarrow> sublist ss s"
  by (induction s arbitrary: i) (auto simp: startswith_prefix sublist_Cons_right)

lemma str_find_neg_iff: "str_find s ss < 0 \<longleftrightarrow> \<not> sublist ss s"
  using find_from_nonneg_iff [of 0 s ss] by (auto simp: str_find_def)

lemma find_wrapper_neg_iff: "find_wrapper s ss < 0 \<longleftrightarrow> \<not> sublist ss s"
  by (simp add: find_wrapper_def str_find_neg_iff)

lemma dropWhile_at:
  assumes "i < length xs" "\<not> P (xs ! i)" "\<forall>x \<in> set (take i xs). P x"
  shows "dropWhile P xs = xs ! i # drop (Suc i) xs"
proof -
  have "dropWhile P (take i xs @ xs ! i # drop (Suc i) xs) = dropWhile P (xs ! i # drop (Suc i) xs)"
    using assms(3) by (intro dropWhile_append2) simp
  then show ?thesis
    using assms(1,2) by (simp add: id_take_nth_drop [symmetric])
qed

lemma takeWhile_at:
  assumes "i < length xs" "\<not> P (xs ! i)" "\<forall>x \<in> set (take i xs). P x"
  shows "takeWhile P xs = take i xs"
proof -
  have "takeWhile P (take i xs @ xs ! i # drop (Suc i) xs) = take i xs @ takeWhile P (xs ! i # drop (Suc i) xs)"
    using assms(3) by (intro takeWhile_append2) simp
  then show ?thesis
    using assms(1,2) by (simp add: id_take_nth_drop [symmetric])
qed

lemma dropWhile_blank_then_after:
  assumes "a \<noteq> []"
  shows "dropWhile (\<lambda>text. str_find text a < 0) (dropWhile (\<lambda>text. text = []) xs)
           = dropWhile (\<lambda>text. str_find text a < 0) xs"
proof (induction xs)
  case Nil show ?case by simp
next
  case (Cons x xs)
  show ?case
  proof (cases "x = []")
    case True
    with assms have "str_find x a < 0" by (simp add: str_find_neg_iff)
    with True Cons show ?thesis by simp
  next
    case False then show ?thesis by simp
  qed
qed

lemma extract_scanner_eq_cli:
  "a \<noteq> [] \<Longrightarrow> extract_delimiters_simple infile a b
      = extract_delimiters_simple_cli (args\<lparr>after_string := a, before_string := b\<rparr>) infile"
  by (simp add: extract_delimiters_simple_def extract_delimiters_simple_cli_def dropWhile_blank_then_after
           cong: list.case_cong)

lemma after_line_found:
  assumes "i < length infile"
    and "sublist a (rstrip (infile ! i))"
    and "\<forall>l \<in> set (take i infile). \<not> sublist a (rstrip l)"
  shows "dropWhile (\<lambda>text. str_find text a < 0) (map rstrip infile)
           = rstrip (infile ! i) # map rstrip (drop (Suc i) infile)"
proof -
  have "dropWhile (\<lambda>text. str_find text a < 0) (map rstrip infile)
          = map rstrip infile ! i # drop (Suc i) (map rstrip infile)"
    using assms by (intro dropWhile_at) (simp_all add: str_find_neg_iff take_map)
  then show ?thesis using assms(1) by (simp add: drop_map)
qed

lemma extract_cli_between:
  assumes "i < j" "j < length infile"
    and "sublist a (rstrip (infile ! i))"
    and "\<forall>l \<in> set (take i infile). \<not> sublist a (rstrip l)"
    and "sublist b (rstrip (infile ! j))"
    and "\<forall>l \<in> set (take (j - Suc i) (drop (Suc i) infile)). \<not> sublist b (rstrip l)"
  shows "extract_delimiters_simple_cli (args\<lparr>after_string := a, before_string := b\<rparr>) infile
           = Inr (map rstrip (take (j - Suc i) (drop (Suc i) infile)))"
proof -
  let ?rest = "map rstrip (drop (Suc i) infile)"
  have i: "i < length infile" using assms(1,2) by simp
  have rest: "dropWhile (\<lambda>text. str_find text a < 0) (map rstrip infile) = rstrip (infile ! i) # ?rest"
    using i assms(3,4) by (rule after_line_found)
  have len: "j - Suc i < length ?rest" using assms(1,2) by simp
  have at: "?rest ! (j - Suc i) = rstrip (infile ! j)" using assms(1,2) by simp
  have "takeWhile (\<lambda>text. find_wrapper text b < 0) ?rest = take (j - Suc i) ?rest"
    using len at assms(5,6) by (intro takeWhile_at) (simp_all add: find_wrapper_neg_iff take_map)
  with rest show ?thesis
    by (simp add: extract_delimiters_simple_cli_def take_map)
qed

lemma extract_cli_not_found:
  assumes "\<forall>l \<in> set infile. \<not> sublist a (rstrip l)"
  shows "extract_delimiters_simple_cli (args\<lparr>after_string := a, before_string := b\<rparr>) infile = Inl StopIteration"
proof -
  have "dropWhile (\<lambda>text. str_find text a < 0) (map rstrip infile) = []"
    using assms by (simp add: str_find_neg_iff)
  then show ?thesis by (simp add: extract_delimiters_simple_cli_def del: dropWhile_eq_Nil_conv)
qed

lemma extract_scanner_not_found:
  assumes "\<forall>l \<in> set infile. \<not> sublist a (rstrip l)"
  shows "extract_delimiters_simple infile a b = Inl StopIteration"
proof -
  let ?d2 = "dropWhile (\<lambda>text. text = []) (map rstrip infile)"
  have "\<And>x. x \<in> set ?d2 \<Longrightarrow> x \<in> set (map rstrip infile)" by (rule set_dropWhileD)
  then have "dropWhile (\<lambda>text. str_find text a < 0) ?d2 = []"
    using assms by (auto simp: str_find_neg_iff)
  then show ?thesis by (simp add: extract_delimiters_simple_def del: dropWhile_eq_Nil_conv)
qed

lemma extract_cli_no_before:
  assumes "i < length infile"
    and "sublist a (rstrip (infile ! i))"
    and "\<forall>l \<in> set (take i infile). \<not> sublist a (rstrip l)"
    and "\<forall>l \<in> set (drop (Suc i) infile). \<not> sublist b (rstrip l)"
  shows "extract_delimiters_simple_cli (args\<lparr>after_string := a, before_string := b\<rparr>) infile
           = Inr (map rstrip (drop (Suc i) infile))"
proof -
  let ?rest = "map rstrip (drop (Suc i) infile)"
  have rest: "dropWhile (\<lambda>text. str_find text a < 0) (map rstrip infile) = rstrip (infile ! i) # ?rest"
    using assms(1,2,3) by (rule after_line_found)
  have "takeWhile (\<lambda>text. find_wrapper text b < 0) ?rest = ?rest"
    using assms(4) by (simp add: find_wrapper_neg_iff)
  with rest show ?thesis
    by (simp add: extract_delimiters_simple_cli_def)
qed

subsection \<open>Rendering without a wrapping environment\<close>

text \<open>
  Claim C6 says that without a configured environment name the plain render writes the
  dedented lines and nothing else, and completes without error. In the source,
  \<open>get_header\<close> tests \<open>args.latex_env\<close> and returns nothing when it is unset, and
  \<open>render\<close> concatenates that result with a newline before its first write: the call ends
  in \<open>TypeError\<close> and nothing at all is written, whatever the extracted lines and the
  dedent setting are.
\<close>

theorem render_without_env_raises:
  "render (args\<lparr>latex_env := None\<rparr>) extracted = ([], Some TypeError)"
  by (simp add: render_def get_header_def)

lemma render_empty_env_raises:
  "render (args\<lparr>latex_env := Some []\<rparr>) extracted = ([], Some TypeError)"
  by (simp add: render_def get_header_def)

lemma render_with_env:
  "e \<noteq> [] \<Longrightarrow>
   render (args\<lparr>latex_env := Some e\<rparr>) extracted =
     (((CHR 0x5C # ''begin{'' @ e @ ''}'') @ ''\<newline>'')
        # map (\<lambda>line. slice_from (dedent args) line @ ''\<newline>'') extracted
        @ [(CHR 0x5C # ''end{'' @ e @ ''}'') @ ''\<newline>''], None)"
  by (simp add: render_def get_header_def render_footer_def)

subsection \<open>Extraction by line numbers\<close>

lemma numbered_reader_from_texts:
  "map text_of (numbered_reader_from k xs) = map rstrip xs"
  by (induction xs arbitrary: k) simp_all

lemma dropWhile_number_less:
  "dropWhile (\<lambda>li. number li < s) (numbered_reader_from k xs)
     = numbered_reader_from (max k s) (drop (nat (s - k)) xs)"
proof (induction xs arbitrary: k)
  case Nil
  show ?case by simp
next
  case (Cons x xs)
  show ?case
  proof (cases "k < s")
    case True
    then have "nat (s - k) = Suc (nat (s - (k + 1)))" by simp
    with True Cons [of "k + 1"] show ?thesis by (simp add: max_def)
  next
    case False
    then show ?thesis by (simp add: max_def)
  qed
qed

lemma takeWhile_number_less:
  "takeWhile (\<lambda>li. number li < e) (numbered_reader_from k xs)
     = numbered_reader_from k (take (nat (e - k)) xs)"
proof (induction xs arbitrary: k)
  case Nil
  show ?case by simp
next
  case (Cons x xs)
  show ?case
  proof (cases "k < e")
    case True
    then have "nat (e - k) = Suc (nat (e - (k + 1)))" by simp
    with True Cons [of "k + 1"] show ?thesis by simp
  next
    case False
    then show ?thesis by simp
  qed
qed

text \<open>
  What \<open>extract_line_range\<close> returns in general: the lines numbered \<open>n\<close> with
  \<open>start_line \<le> n < end_line\<close>, stripped. The line numbered \<open>start_line\<close> is the
  first one returned.
\<close>

lemma extract_line_range_eq:
  "extract_line_range args infile =
     map rstrip (take (nat (end_line args - max 1 (start_line args)))
                   (drop (nat (start_line args - 1)) infile))"
  by (simp add: extract_line_range_def numbered_reader_def dropWhile_number_less
        takeWhile_number_less numbered_reader_from_texts)

text \<open>
  Claim C2 says that line-range extraction with \<open>start_line = 2\<close> and \<open>end_line = 5\<close>
  returns the lines numbered 3 and 4, both bounds being exclusive. The help text of
  \<open>--start-line\<close> says the same ("start after line"), and the delimiter extractor skips
  its boundary line with \<open>next(rest)\<close>; \<open>extract_line_range\<close> has no such step, so on
  a six-line file it returns the lines numbered 2, 3 and 4.
\<close>

theorem extract_line_range_includes_start_line:
  "extract_line_range
     \<lparr>latex_env = None, dedent = 0, after_string = [], before_string = [], start_line = 2, end_line = 5\<rparr>
     [''l1\<newline>'', ''l2\<newline>'', ''l3\<newline>'', ''l4\<newline>'', ''l5\<newline>'', ''l6\<newline>'']
   = [''l2'', ''l3'', ''l4'']"
  by code_simp

subsection \<open>Extraction between delimiter strings\<close>

text \<open>
  What \<open>rstrip\<close> does to a line: it removes a suffix made of whitespace only, and what
  is left does not end in whitespace.
\<close>

lemma rstrip_spec:
  "(\<exists>w. s = rstrip s @ w \<and> (\<forall>c \<in> set w. is_space c))
   \<and> (rstrip s = [] \<or> \<not> is_space (last (rstrip s)))"
proof
  have "s = rstrip s @ rev (takeWhile is_space (rev s))"
    using rev_append [of "takeWhile is_space (rev s)" "dropWhile is_space (rev s)"]
    by (simp add: rstrip_def)
  moreover have "\<forall>c \<in> set (rev (takeWhile is_space (rev s))). is_space c"
    by (auto dest: set_takeWhileD)
  ultimately show "\<exists>w. s = rstrip s @ w \<and> (\<forall>c \<in> set w. is_space c)" by blast
next
  show "rstrip s = [] \<or> \<not> is_space (last (rstrip s))"
  proof (cases "dropWhile is_space (rev s) = []")
    case True
    then show ?thesis by (simp add: rstrip_def)
  next
    case False
    then have "\<not> is_space (hd (dropWhile is_space (rev s)))" by (rule hd_dropWhile)
    with False show ?thesis by (simp add: rstrip_def last_rev)
  qed
qed

text \<open>
  Claim C5, as amended: the extractor strips the trailing whitespace of every line
  \<^emph>\<open>before\<close> it searches the line. When some stripped line contains the after string and
  a later stripped line contains the before string, delimiter extraction returns exactly
  the lines strictly between the first line whose stripped text contains the after string
  (index \<open>i\<close>) and the next line after it whose stripped text contains the before string
  (index \<open>j\<close>), in order, each without its trailing whitespace: a suffix of whitespace
  characters is removed and what is left does not end in whitespace. Both extractors are
  covered; the one of the tree scanner first skips leading blank lines, which changes
  nothing for a non-empty after string (it is only ever called with the text of a matched
  marker).
\<close>

theorem delimiters_between:
  assumes "i < j" "j < length infile"
    and "sublist after_s (rstrip (infile ! i))"
    and "\<forall>l \<in> set (take i infile). \<not> sublist after_s (rstrip l)"
    and "sublist before_s (rstrip (infile ! j))"
    and "\<forall>l \<in> set (take (j - Suc i) (drop (Suc i) infile)). \<not> sublist before_s (rstrip l)"
  shows "extract_delimiters_simple_cli (args\<lparr>after_string := after_s, before_string := before_s\<rparr>) infile
           = Inr (map rstrip (take (j - Suc i) (drop (Suc i) infile)))
         \<and> (after_s \<noteq> [] \<longrightarrow>
              extract_delimiters_simple infile after_s before_s
                = Inr (map rstrip (take (j - Suc i) (drop (Suc i) infile))))
         \<and> (\<forall>l \<in> set (take (j - Suc i) (drop (Suc i) infile)).
              (\<exists>w. l = rstrip l @ w \<and> (\<forall>c \<in> set w. is_space c))
              \<and> (rstrip l = [] \<or> \<not> is_space (last (rstrip l))))"
proof (intro conjI)
  show "extract_delimiters_simple_cli (args\<lparr>after_string := after_s, before_string := before_s\<rparr>) infile
           = Inr (map rstrip (take (j - Suc i) (drop (Suc i) infile)))"
    by (rule extract_cli_between [OF assms])
  then show "after_s \<noteq> [] \<longrightarrow>
      extract_delimiters_simple infile after_s before_s
        = Inr (map rstrip (take (j - Suc i) (drop (Suc i) infile)))"
    using extract_scanner_eq_cli [where a = after_s and infile = infile and b = before_s and args = args]
    by simp
  show "\<forall>l \<in> set (take (j - Suc i) (drop (Suc i) infile)).
          (\<exists>w. l = rstrip l @ w \<and> (\<forall>c \<in> set w. is_space c))
          \<and> (rstrip l = [] \<or> \<not> is_space (last (rstrip l)))"
    using rstrip_spec by blast
qed

text \<open>
  A file whose lines end in blanks, a tab and newlines: the lines between \<open>START\<close> and
  \<open>END\<close> come back as \<open>x\<close> and \<open>y\<close>, without their trailing whitespace.
\<close>

theorem delimiters_between_witness:
  "extract_delimiters_simple_cli
      \<lparr>latex_env = None, dedent = 0, after_string = ''START'', before_string = ''END'', start_line = 0, end_line = 0\<rparr>
      [''a\<newline>'', ''// START  \<newline>'', ''x  \<newline>'', [CHR ''y'', CHR 0x09, CHR 0x0A], ''END\<newline>'', ''z\<newline>'']
      = Inr [''x'', ''y'']
   \<and> extract_delimiters_simple
      [''a\<newline>'', ''// START  \<newline>'', ''x  \<newline>'', [CHR ''y'', CHR 0x09, CHR 0x0A], ''END\<newline>'', ''z\<newline>'']
      ''START'' ''END'' = Inr [''x'', ''y'']"
proof -
  let ?infile = "[''a\<newline>'', ''// START  \<newline>'', ''x  \<newline>'', [CHR ''y'', CHR 0x09, CHR 0x0A], ''END\<newline>'', ''z\<newline>'']"
  let ?args = "\<lparr>latex_env = None, dedent = 0, after_string = [], before_string = [], start_line = 0, end_line = 0\<rparr>"
  have h1: "(1::nat) < 4" and h2: "4 < length ?infile" by simp_all
  have h3: "sublist ''START'' (rstrip (?infile ! 1))" by code_simp
  have h4: "\<forall>l \<in> set (take 1 ?infile). \<not> sublist ''START'' (rstrip l)" by code_simp
  have h5: "sublist ''END'' (rstrip (?infile ! 4))" by code_simp
  have h6: "\<forall>l \<in> set (take (4 - Suc 1) (drop (Suc 1) ?infile)). \<not> sublist ''END'' (rstrip l)" by code_simp
  have r: "map rstrip (take (4 - Suc 1) (drop (Suc 1) ?infile)) = [''x'', ''y'']" by code_simp
  have n: "''START'' \<noteq> []" by simp
  note t = delimiters_between [OF h1 h2 h3 h4 h5 h6, where args = ?args]
  from t [THEN conjunct1] have c1: "extract_delimiters_simple_cli
      (?args\<lparr>after_string := ''START'', before_string := ''END''\<rparr>) ?infile = Inr [''x'', ''y'']"
    unfolding r .
  from t [THEN conjunct2, THEN conjunct1, rule_format, OF n]
  have c2: "extract_delimiters_simple ?infile ''START'' ''END'' = Inr [''x'', ''y'']"
    unfolding r .
  from c1 c2 show ?thesis by simp
qed

text \<open>The example of the claim itself.\<close>

lemma delimiters_between_example:
  "extract_delimiters_simple_cli
      \<lparr>latex_env = None, dedent = 0, after_string = ''START'', before_string = ''END'', start_line = 0, end_line = 0\<rparr>
      [''a'', ''START'', ''x'', ''y'', ''END'', ''z''] = Inr [''x'', ''y'']
   \<and> extract_delimiters_simple [''a'', ''START'', ''x'', ''y'', ''END'', ''z''] ''START'' ''END'' = Inr [''x'', ''y'']"
  by code_simp

text \<open>
  The claim as stated, for every input in which a line contains the after string, fails:
  the first line below contains the after string \<open>START\<close> followed by a blank, and the
  third line contains the before string, yet the blank is stripped before the search, no
  line is found, and both extractors raise \<open>StopIteration\<close> instead of returning the
  line \<open>x\<close>.
\<close>

theorem delimiters_between_counterexample:
  "sublist ''START '' ([''START \<newline>'', ''x\<newline>'', ''END\<newline>''] ! 0)
   \<and> sublist ''END'' ([''START \<newline>'', ''x\<newline>'', ''END\<newline>''] ! 2)
   \<and> extract_delimiters_simple_cli
        \<lparr>latex_env = None, dedent = 0, after_string = ''START '', before_string = ''END'', start_line = 0, end_line = 0\<rparr>
        [''START \<newline>'', ''x\<newline>'', ''END\<newline>''] = Inl StopIteration
   \<and> extract_delimiters_simple [''START \<newline>'', ''x\<newline>'', ''END\<newline>''] ''START '' ''END'' = Inl StopIteration"
  by code_simp

text \<open>
  Claim C4, as amended: when no line contains the after string, both extractors raise
  \<open>StopIteration\<close> (the \<open>next(rest)\<close> that skips the boundary line finds the iterator
  exhausted) instead of yielding an empty sequence; and when the after string is found
  at line \<open>i\<close> but no later line contains the before string, they yield every line after
  line \<open>i\<close> up to the end of the input, stripped, without an error.
\<close>

theorem delimiters_missing:
  "((\<forall>l \<in> set infile. \<not> sublist after_s (rstrip l)) \<longrightarrow>
      extract_delimiters_simple_cli (args\<lparr>after_string := after_s, before_string := before_s\<rparr>) infile
        = Inl StopIteration
      \<and> extract_delimiters_simple infile after_s before_s = Inl StopIteration)
   \<and> (i < length infile'
        \<and> sublist after_s (rstrip (infile' ! i))
        \<and> (\<forall>l \<in> set (take i infile'). \<not> sublist after_s (rstrip l))
        \<and> (\<forall>l \<in> set (drop (Suc i) infile'). \<not> sublist before_s (rstrip l)) \<longrightarrow>
      extract_delimiters_simple_cli (args\<lparr>after_string := after_s, before_string := before_s\<rparr>) infile'
        = Inr (map rstrip (drop (Suc i) infile'))
      \<and> (after_s \<noteq> [] \<longrightarrow>
           extract_delimiters_simple infile' after_s before_s = Inr (map rstrip (drop (Suc i) infile'))))"
  using extract_cli_not_found [where infile = infile and a = after_s and args = args and b = before_s]
    extract_scanner_not_found [where infile = infile and a = after_s and b = before_s]
    extract_cli_no_before [where i = i and infile = infile' and a = after_s and b = before_s and args = args]
    extract_scanner_eq_cli [where a = after_s and infile = infile' and b = before_s and args = args]
  by simp

theorem delimiters_missing_witness:
  "extract_delimiters_simple_cli
      \<lparr>latex_env = None, dedent = 0, after_string = ''START'', before_string = ''END'', start_line = 0, end_line = 0\<rparr>
      [''a\<newline>'', ''b\<newline>''] = Inl StopIteration
   \<and> extract_delimiters_simple [''a\<newline>'', ''b\<newline>''] ''START'' ''END'' = Inl StopIteration
   \<and> extract_delimiters_simple_cli
      \<lparr>latex_env = None, dedent = 0, after_string = ''START'', before_string = ''END'', start_line = 0, end_line = 0\<rparr>
      [''START\<newline>'', ''x\<newline>'', ''y  \<newline>''] = Inr [''x'', ''y'']
   \<and> extract_delimiters_simple [''START\<newline>'', ''x\<newline>'', ''y  \<newline>''] ''START'' ''END'' = Inr [''x'', ''y'']"
proof -
  let ?infile = "[''a\<newline>'', ''b\<newline>'']"
  let ?infile' = "[''START\<newline>'', ''x\<newline>'', ''y  \<newline>'']"
  let ?args = "\<lparr>latex_env = None, dedent = 0, after_string = [], before_string = [], start_line = 0, end_line = 0\<rparr>"
  have h1: "\<forall>l \<in> set ?infile. \<not> sublist ''START'' (rstrip l)" by code_simp
  have h2: "0 < length ?infile'" by simp
  have h3: "sublist ''START'' (rstrip (?infile' ! 0))" by code_simp
  have h4: "\<forall>l \<in> set (take 0 ?infile'). \<not> sublist ''START'' (rstrip l)" by simp
  have h5: "\<forall>l \<in> set (drop (Suc 0) ?infile'). \<not> sublist ''END'' (rstrip l)" by code_simp
  have r: "map rstrip (drop (Suc 0) ?infile') = [''x'', ''y'']" by code_simp
  from delimiters_missing [where infile = ?infile and after_s = "''START''" and args = ?args
      and before_s = "''END''" and i = 0 and infile' = ?infile'] h1 h2 h3 h4 h5
  show ?thesis unfolding r by simp
qed

text \<open>
  The claim as stated fails: with no line containing \<open>START\<close> the result is an exception,
  not an empty sequence; and with \<open>START\<close> found but no \<open>END\<close> after it the result is
  not empty.
\<close>

theorem delimiters_missing_counterexample:
  "extract_delimiters_simple [''a\<newline>'', ''b\<newline>''] ''START'' ''END'' = Inl StopIteration
   \<and> extract_delimiters_simple_cli
        \<lparr>latex_env = None, dedent = 0, after_string = ''START'', before_string = ''END'', start_line = 0, end_line = 0\<rparr>
        [''a\<newline>'', ''b\<newline>''] = Inl StopIteration
   \<and> extract_delimiters_simple [''START\<newline>'', ''x\<newline>'', ''y\<newline>''] ''START'' ''END'' = Inr [''x'', ''y'']
   \<and> extract_delimiters_simple_cli
        \<lparr>latex_env = None, dedent = 0, after_string = ''START'', before_string = ''END'', start_line = 0, end_line = 0\<rparr>
        [''START\<newline>'', ''x\<newline>'', ''y\<newline>''] = Inr [''x'', ''y'']"
  by code_simp

section \<open>Properties of the tree scanner\<close>

subsection \<open>Grouping the matches of a file by tag\<close>

text \<open>
  Claim C1 says that a file with exactly one begin and one end marker of a tag has both
  collected into a single group that validation accepts, whatever markers of other tags
  lie between them. \<^const>\<open>groupby\<close> starts a new group at every change of the key and the
  matches are grouped in line order, without being sorted by tag first. A tag nested in
  another one therefore splits the outer tag in two groups of one match each: in the
  file below \<open>outer\<close> is reported twice as mismatched and is not retained, and only
  \<open>inner\<close> is (with the line numbers recorded for its two markers).
\<close>

theorem nested_tag_is_split_and_dropped:
  "fst (process_lines ''.'' ''f.c'' ''.c''
          [''{{b:outer:begin}}\<newline>'', ''{{b:inner:begin}}\<newline>'', ''{{b:inner:end}}\<newline>'', ''{{b:outer:end}}\<newline>''])
     = [mismatch_message ''outer'', mismatch_message ''outer'']
   \<and> map (\<lambda>(group_name, group_values). (group_name, map mm_marker group_values, map mm_line group_values))
         (snd (process_lines ''.'' ''f.c'' ''.c''
          [''{{b:outer:begin}}\<newline>'', ''{{b:inner:begin}}\<newline>'', ''{{b:inner:end}}\<newline>'', ''{{b:outer:end}}\<newline>'']))
     = [(''inner'', [''begin'', ''end''], [3, 4])]
   \<and> map (\<lambda>(group_name, group_values). (group_name, map mm_marker group_values))
         (groupby mm_tag (collect_matches ''.'' ''f.c'' ''.c'' (line_reader
          [''{{b:outer:begin}}\<newline>'', ''{{b:inner:begin}}\<newline>'', ''{{b:inner:end}}\<newline>'', ''{{b:outer:end}}\<newline>''])))
     = [(''outer'', [''begin'']), (''inner'', [''begin'', ''end'']), (''outer'', [''end''])]"
  by code_simp

text \<open>
  Claim C3 says that a retained group holds exactly one begin and exactly one end match
  and that any other combination is dropped with a diagnostic. Validation only counts the
  distinct markers of a group, so two begins and one end pass: the group below is retained
  with its three matches and nothing is printed. The minted writer, which unpacks the
  first two matches of a group as its begin and end, then reports that same group as
  invalid and writes nothing for it.
\<close>

theorem duplicate_begin_is_retained:
  "fst (process_lines ''.'' ''f.c'' ''.c'' [''{{b:A:begin}}\<newline>'', ''{{b:A:begin}}\<newline>'', ''{{b:A:end}}\<newline>'']) = []
   \<and> map (\<lambda>(group_name, group_values). (group_name, map mm_marker group_values, map mm_line group_values))
         (snd (process_lines ''.'' ''f.c'' ''.c'' [''{{b:A:begin}}\<newline>'', ''{{b:A:begin}}\<newline>'', ''{{b:A:end}}\<newline>'']))
     = [(''A'', [''begin'', ''begin'', ''end''], [2, 3, 4])]
   \<and> write_minted_snippets fs args
         (snd (process_lines ''.'' ''f.c'' ''.c'' [''{{b:A:begin}}\<newline>'', ''{{b:A:begin}}\<newline>'', ''{{b:A:end}}\<newline>'']))
     = ([Print ''Invalid group A''], Inr ())"
  by code_simp

subsection \<open>The line recorded for a match\<close>










subsection \<open>Manifest file names\<close>

















subsection \<open>The output directory check\<close>

text \<open>
  The only \<^const>\<open>Exists\<close> event of a run is the test of the output directory at the
  start of \<^const>\<open>process_dir\<close>: nothing the loops over the walk call produces one.
\<close>

lemma then_run_events:
  "e \<in> set (fst (then_run m f)) \<Longrightarrow> e \<in> set (fst m) \<or> (\<exists>x. e \<in> set (fst (f x)))"
proof -
  assume a: "e \<in> set (fst (then_run m f))"
  obtain t r where m: "m = (t, r)" by (cases m)
  show ?thesis
  proof (cases r)
    case (Inl err)
    with a m show ?thesis by (simp add: then_run_def)
  next
    case (Inr x)
    obtain t' r' where f: "f x = (t', r')" by (cases "f x")
    with a m Inr have "e \<in> set t \<or> e \<in> set (fst (f x))" by (auto simp: then_run_def)
    with m show ?thesis by auto
  qed
qed

lemma process_file_no_exists: "Exists p \<notin> set (fst (process_file fs root name extension))"
  by (auto simp: process_file_def Let_def split: option.splits prod.splits)

lemma write_json_no_exists: "Exists p \<notin> set (fst (write_json fs outdir root basename data))"
  by (simp add: write_json_def Let_def)

lemma write_minted_group_no_exists: "Exists p \<notin> set (fst (write_minted_group fs args begin_m end_m))"
  by (simp add: write_minted_group_def Let_def split: option.splits sum.splits)

lemma write_minted_snippets_no_exists: "Exists p \<notin> set (fst (write_minted_snippets fs args groups))"
proof (induction groups)
  case Nil
  show ?case by simp
next
  case (Cons g groups)
  obtain group_name vals where g: "g = (group_name, vals)" by (cases g)
  show ?case
  proof
    assume a: "Exists p \<in> set (fst (write_minted_snippets fs args (g # groups)))"
    show False
    proof (cases "take 2 vals")
      case Nil
      with a g show False by simp
    next
      case (Cons begin_m rest)
      note outer = Cons
      show False
      proof (cases rest)
        case Nil
        with a g outer show False by simp
      next
        case (Cons end_m rest')
        have "length (take 2 vals) \<le> 2" by simp
        with outer Cons have "rest' = []" by simp
        with a g outer Cons have "Exists p \<in> set (fst (then_run
            (if mm_marker begin_m \<noteq> ''begin'' \<or> mm_marker end_m \<noteq> ''end''
             then ([Print (''Invalid group '' @ group_name)], Inr ())
             else write_minted_group fs args begin_m end_m)
            (\<lambda>_. write_minted_snippets fs args groups)))" by simp
        then have "Exists p \<in> set (fst (if mm_marker begin_m \<noteq> ''begin'' \<or> mm_marker end_m \<noteq> ''end''
             then ([Print (''Invalid group '' @ group_name)], Inr ())
             else write_minted_group fs args begin_m end_m))
           \<or> Exists p \<in> set (fst (write_minted_snippets fs args groups))"
          by (auto dest: then_run_events)
        with Cons.IH show False
          using write_minted_group_no_exists [of p fs args begin_m end_m] by (auto split: if_splits)
      qed
    qed
  qed
qed

lemma process_name_no_exists: "Exists p \<notin> set (fst (process_name fs args extensions root name))"
proof
  assume a: "Exists p \<in> set (fst (process_name fs args extensions root name))"
  obtain nameonly extension where s: "os_path_splitext name = (nameonly, extension)"
    by (cases "os_path_splitext name")
  show False
  proof (cases "extension \<in> extensions")
    case False
    with a s show False by (simp add: process_name_def)
  next
    case True
    with a s have "Exists p \<in> set (fst (then_run (process_file fs root name extension)
              (\<lambda>snips.
                 then_run
                   (if arg_json args \<and> length snips > 0
                    then write_json fs (arg_outdir args) root name snips
                    else ([], Inr ()))
                   (\<lambda>_. if arg_minted args then write_minted_snippets fs args snips else ([], Inr ())))))"
      by (simp add: process_name_def)
    then obtain snips where "Exists p \<in> set (fst (then_run
                   (if arg_json args \<and> length snips > 0
                    then write_json fs (arg_outdir args) root name snips
                    else ([], Inr ()))
                   (\<lambda>_. if arg_minted args then write_minted_snippets fs args snips else ([], Inr ()))))"
      using process_file_no_exists [of p fs root name extension] by (auto dest: then_run_events)
    then have "Exists p \<in> set (fst (if arg_json args \<and> length snips > 0
                    then write_json fs (arg_outdir args) root name snips
                    else ([], Inr ())))
        \<or> (\<exists>x :: unit. Exists p \<in> set (fst (if arg_minted args then write_minted_snippets fs args snips else ([], Inr ()))))"
      by (rule then_run_events)
    then show False
      using write_json_no_exists [of p fs "arg_outdir args" root name snips]
        write_minted_snippets_no_exists [of p fs args snips]
      by (auto split: if_splits)
  qed
qed

lemma process_names_no_exists: "Exists p \<notin> set (fst (process_names fs args extensions root files))"
proof (induction files)
  case Nil
  show ?case by simp
next
  case (Cons name files)
  show ?case
  proof
    assume "Exists p \<in> set (fst (process_names fs args extensions root (name # files)))"
    then have "Exists p \<in> set (fst (process_name fs args extensions root name))
       \<or> Exists p \<in> set (fst (process_names fs args extensions root files))"
      by (auto dest: then_run_events)
    with Cons show False using process_name_no_exists [of p fs args extensions root name] by blast
  qed
qed

lemma process_walk_no_exists: "Exists p \<notin> set (fst (process_walk fs args extensions walk))"
proof (induction walk)
  case Nil
  show ?case by simp
next
  case (Cons w walk)
  obtain root dirs files where w: "w = (root, dirs, files)" by (cases w)
  show ?case
  proof
    assume "Exists p \<in> set (fst (process_walk fs args extensions (w # walk)))"
    with w have "Exists p \<in> set (fst (process_names fs args extensions root files))
       \<or> Exists p \<in> set (fst (process_walk fs args extensions walk))"
      by (auto dest: then_run_events)
    with Cons show False using process_names_no_exists [of p fs args extensions root files] by blast
  qed
qed

lemma process_dir_missing_outdir:
  assumes "\<not> fs_exists fs (arg_outdir args)"
  shows "process_dir fs args
           = ([Exists (arg_outdir args), Print (''Outdir '' @ arg_outdir args @ '' must exist (exiting)'')], Inr ())"
  using assms by (simp add: process_dir_def Let_def)

lemma process_dir_existing_outdir:
  assumes "fs_exists fs (arg_outdir args)"
  shows "\<exists>t r. process_dir fs args = (Exists (arg_outdir args) # Walk (arg_dir args) # t, r)
            \<and> (\<forall>p. Exists p \<notin> set t)"
proof -
  let ?extensions = "set (map (\<lambda>extension. ''.'' @ extension) (str_split (CHR '','') (arg_extensions args)))"
  obtain t r where w: "process_walk fs args ?extensions (fs_walk fs (arg_dir args)) = (t, r)"
    by (cases "process_walk fs args ?extensions (fs_walk fs (arg_dir args))")
  have "\<forall>p. Exists p \<notin> set t"
    using process_walk_no_exists [of _ fs args ?extensions "fs_walk fs (arg_dir args)"] w by simp
  moreover have "process_dir fs args = (Exists (arg_outdir args) # Walk (arg_dir args) # t, r)"
    using assms w by (simp add: process_dir_def Let_def then_run_def)
  ultimately show ?thesis by blast
qed

text \<open>
  Claim C9. When the output directory does not exist the run consists of the test and
  the message to the user, and returns normally: no file is opened, read or written and
  the tree is not walked. When it exists, the run starts with the test, followed by the
  walk of the base directory, and tests no path again.
\<close>

theorem outdir_checked_once_before_any_io:
  "(\<not> fs_exists fs (arg_outdir args) \<longrightarrow>
      process_dir fs args
        = ([Exists (arg_outdir args), Print (''Outdir '' @ arg_outdir args @ '' must exist (exiting)'')], Inr ()))
   \<and> (fs_exists fs (arg_outdir args) \<longrightarrow>
      (\<exists>t r. process_dir fs args = (Exists (arg_outdir args) # Walk (arg_dir args) # t, r)
          \<and> (\<forall>p. Exists p \<notin> set t)))"
  using process_dir_missing_outdir [of fs args] process_dir_existing_outdir [of fs args] by blast

theorem outdir_checked_once_before_any_io_witness:
  "process_dir
      \<lparr>fs_exists = (\<lambda>p. False),
       fs_walk = (\<lambda>d. if d = ''.'' then [(''.'', [], [''f.c'', ''README''])] else []),
       fs_read = (\<lambda>p. if p = ''./f.c'' then Some [''{{b:A:begin}}\<newline>'', ''int x;\<newline>'', ''{{b:A:end}}\<newline>''] else None),
       fs_writable = (\<lambda>p. True)\<rparr>
      \<lparr>arg_dir = ''.'', arg_outdir = ''out'', arg_extensions = ''c,h,cc,hh,cpp,py'',
       arg_literalinclude = False, arg_minted = True, arg_json = True\<rparr>
     = ([Exists ''out'', Print ''Outdir out must exist (exiting)''], Inr ())
   \<and> (\<exists>t r. process_dir
      \<lparr>fs_exists = (\<lambda>p. p = ''out''),
       fs_walk = (\<lambda>d. if d = ''.'' then [(''.'', [], [''f.c'', ''README''])] else []),
       fs_read = (\<lambda>p. if p = ''./f.c'' then Some [''{{b:A:begin}}\<newline>'', ''int x;\<newline>'', ''{{b:A:end}}\<newline>''] else None),
       fs_writable = (\<lambda>p. True)\<rparr>
      \<lparr>arg_dir = ''.'', arg_outdir = ''out'', arg_extensions = ''c,h,cc,hh,cpp,py'',
       arg_literalinclude = False, arg_minted = True, arg_json = True\<rparr>
     = (Exists ''out'' # Walk ''.'' # t, r) \<and> (\<forall>p. Exists p \<notin> set t))"
proof -
  let ?walk = "\<lambda>d. if d = ''.'' then [(''.'', [] :: string list, [''f.c'', ''README''])] else []"
  let ?read = "\<lambda>p. if p = ''./f.c'' then Some [''{{b:A:begin}}\<newline>'', ''int x;\<newline>'', ''{{b:A:end}}\<newline>''] else None"
  let ?fs1 = "\<lparr>fs_exists = (\<lambda>p. False), fs_walk = ?walk, fs_read = ?read, fs_writable = (\<lambda>p. True)\<rparr>"
  let ?fs2 = "\<lparr>fs_exists = (\<lambda>p. p = ''out''), fs_walk = ?walk, fs_read = ?read, fs_writable = (\<lambda>p. True)\<rparr>"
  let ?args = "\<lparr>arg_dir = ''.'', arg_outdir = ''out'', arg_extensions = ''c,h,cc,hh,cpp,py'',
       arg_literalinclude = False, arg_minted = True, arg_json = True\<rparr>"
  have h1: "\<not> fs_exists ?fs1 (arg_outdir ?args)" by simp
  have h2: "fs_exists ?fs2 (arg_outdir ?args)" by simp
  from outdir_checked_once_before_any_io [where fs = ?fs1 and args = ?args, THEN conjunct1, rule_format, OF h1]
    outdir_checked_once_before_any_io [where fs = ?fs2 and args = ?args, THEN conjunct2, rule_format, OF h2]
  show ?thesis by simp
qed

text \<open>The whole run on the second file system of the example.\<close>

lemma process_dir_example:
  "map (\<lambda>e. case e of WriteJson p data \<Rightarrow> Write p (concat (map fst data)) | _ \<Rightarrow> e) (fst (process_dir
      \<lparr>fs_exists = (\<lambda>p. p = ''out''),
       fs_walk = (\<lambda>d. if d = ''.'' then [(''.'', [], [''f.c'', ''README''])] else []),
       fs_read = (\<lambda>p. if p = ''./f.c'' then Some [''{{b:A:begin}}\<newline>'', ''int x;\<newline>'', ''{{b:A:end}}\<newline>''] else None),
       fs_writable = (\<lambda>p. True)\<rparr>
      \<lparr>arg_dir = ''.'', arg_outdir = ''out'', arg_extensions = ''c,h,cc,hh,cpp,py'',
       arg_literalinclude = False, arg_minted = True, arg_json = True\<rparr>))
   = [Exists ''out'', Walk ''.'', OpenRead ''./f.c'', Print ''Writing output to f.c.json'',
      OpenWrite ''out/f.c.json'', Write ''out/f.c.json'' ''A'',
      OpenRead ''./f.c'', OpenWrite ''out/snip-b-A.tex'',
      Write ''out/snip-b-A.tex'' (CHR 0x5C # ''begin{ccode*}{firstnumber=2}\<newline>''),
      Write ''out/snip-b-A.tex'' ''int x;\<newline>'',
      Write ''out/snip-b-A.tex'' (CHR 0x5C # ''end{ccode*}\<newline>'')]"
  by code_simp

end
